theory Spec2Isabelle
  imports Main "HOL-Library.Word"
begin

section \<open>Values of the host language\<close>

text \<open>
  A Python float is an IEEE-754 binary64 value; it is carried here as its 64-bit pattern.
  The program never computes with floats: it only converts values to float and stores them.
\<close>

type_synonym pyfloat = "64 word"

definition float_0_0 :: pyfloat where
  "float_0_0 = 0x0000000000000000"

definition float_1_0 :: pyfloat where
  "float_1_0 = 0x3FF0000000000000"

definition float_100_0 :: pyfloat where
  "float_100_0 = 0x4059000000000000"

definition float_200_0 :: pyfloat where
  "float_200_0 = 0x4069000000000000"

text \<open>
  What the structured output parser hands to the agents is decoded JSON: Python's
  \<^verbatim>\<open>None\<close>, \<^verbatim>\<open>bool\<close>, \<^verbatim>\<open>int\<close>, \<^verbatim>\<open>float\<close>, \<^verbatim>\<open>str\<close>, \<^verbatim>\<open>list\<close> and \<^verbatim>\<open>dict\<close>.
  A dict keeps its insertion order, so it is an association list.
\<close>

datatype pyvalue =
    PyNone
  | PyBool bool
  | PyInt int
  | PyFloat pyfloat
  | PyStr string
  | PyList "pyvalue list"
  | PyDict "(string \<times> pyvalue) list"

type_synonym pydict = "(string \<times> pyvalue) list"

datatype error =
    RuntimeError string
  | ValueError string
  | TypeError
  | AttributeError
  | OverflowError
  | OutputParserException string
  | ProviderError string

text \<open>\<^verbatim>\<open>d.get(key, default)\<close> and \<^verbatim>\<open>d.get(key)\<close>.\<close>

definition dict_get :: "pydict \<Rightarrow> string \<Rightarrow> pyvalue \<Rightarrow> pyvalue" where
  "dict_get d key dflt = (case map_of d key of None \<Rightarrow> dflt | Some v \<Rightarrow> v)"

definition dict_get_none :: "pydict \<Rightarrow> string \<Rightarrow> pyvalue" where
  "dict_get_none d key = dict_get d key PyNone"

text \<open>
  The builtins \<^verbatim>\<open>float\<close> and \<^verbatim>\<open>str\<close>. Three parts of them are taken as parameters:
  the rounding of an int to a float (which raises for an int out of range), the reading
  of a float from a string (which raises for a string that is no number), and the text
  \<^verbatim>\<open>str\<close> gives for a value that is not already a string.
\<close>

record builtins =
  float_of_int :: "int \<Rightarrow> error + pyfloat"
  float_of_str :: "string \<Rightarrow> error + pyfloat"
  str_of_other :: "pyvalue \<Rightarrow> string"

fun py_float :: "builtins \<Rightarrow> pyvalue \<Rightarrow> error + pyfloat" where
  "py_float B (PyFloat f) = Inr f"
| "py_float B (PyInt i) = float_of_int B i"
| "py_float B (PyBool b) = Inr (if b then float_1_0 else float_0_0)"
| "py_float B (PyStr s) = float_of_str B s"
| "py_float B PyNone = Inl TypeError"
| "py_float B (PyList xs) = Inl TypeError"
| "py_float B (PyDict d) = Inl TypeError"

fun py_str :: "builtins \<Rightarrow> pyvalue \<Rightarrow> string" where
  "py_str B (PyStr s) = s"
| "py_str B v = str_of_other B v"

text \<open>\<^verbatim>\<open>sep.join(xs)\<close>.\<close>

fun join :: "string \<Rightarrow> string list \<Rightarrow> string" where
  "join sep [] = []"
| "join sep [x] = x"
| "join sep (x # y # ys) = x @ sep @ join sep (y # ys)"

text \<open>Truthiness of an \<^verbatim>\<open>Optional[str]\<close>: \<^verbatim>\<open>None\<close> and the empty string are falsy.\<close>

fun truthy :: "string option \<Rightarrow> bool" where
  "truthy None = False"
| "truthy (Some s) = (s \<noteq> [])"

section \<open>Data model\<close>

record MaterialComponent =
  name :: string
  percentage :: pyfloat
  weight_grams :: pyfloat

record FashionAnalysis =
  garment_summary :: string
  components :: "MaterialComponent list"
  total_weight_grams :: "pyfloat option"

record SustainabilityEstimates =
  water_liters :: pyfloat
  co2_kg :: pyfloat
  energy_kwh :: pyfloat
  methodology_notes :: string
  research_context :: string

record WebSearchResult =
  query :: string
  raw_output :: string

record OrchestratedResponse =
  fashion_analysis :: FashionAnalysis
  sustainability_estimates :: SustainabilityEstimates

record Settings =
  openai_api_key :: "string option"
  tavily_api_key :: "string option"
  fashion_analyzer_model :: string
  sustainability_analyzer_model :: string

section \<open>Collaborators and the record of calls\<close>

text \<open>
  A chat client is either the one the constructor builds from the settings (model,
  temperature, key) or one handed in by the caller.
\<close>

datatype pynum = NumInt int | NumFloat pyfloat

datatype chat_client =
    ChatOpenAI string pynum string
  | InjectedClient string

text \<open>
  The variables an agent hands to its prompt template. The template text and the
  library's formatting are constant and stay outside the model.
\<close>

datatype prompt_vars =
    AnalyzerVars string string
  | EstimatorVars pyvalue string

datatype tool =
    TavilySearchResults int string
  | DisabledWebSearch

text \<open>
  Every call that leaves an agent is recorded, in order: a run of the search tool, a
  request to the search provider, a request to the model provider. The last two are the
  outbound calls.
\<close>

datatype event =
    SearchToolRun string
  | ProviderSearch int string
  | ModelInvoke chat_client prompt_vars

type_synonym trace = "event list"

fun outbound :: "event \<Rightarrow> bool" where
  "outbound (SearchToolRun q) = False"
| "outbound (ProviderSearch k q) = True"
| "outbound (ModelInvoke c v) = True"

fun research_queries :: "trace \<Rightarrow> string list" where
  "research_queries [] = []"
| "research_queries (SearchToolRun q # es) = q # research_queries es"
| "research_queries (e # es) = research_queries es"

text \<open>
  The providers and the library's parser are opaque. A provider's answer may depend on
  everything that happened before (the calls recorded so far), so a provider is a
  function of the record and the request. The parser is given the keys of its response
  schemas and the text to parse.
\<close>

record environment =
  invoke :: "trace \<Rightarrow> chat_client \<Rightarrow> prompt_vars \<Rightarrow> error + string"
  tavily :: "trace \<Rightarrow> int \<Rightarrow> string \<Rightarrow> string \<Rightarrow> error + pyvalue"
  parse :: "string list \<Rightarrow> string \<Rightarrow> error + pydict"
  builtin :: builtins

section \<open>The research lookup (tools/web\_search.py)\<close>

record SustainabilityWebSearchTool =
  search_k :: int
  search_tavily_api_key :: "string option"
  search_tool :: tool

definition disabled_search :: "string \<Rightarrow> string" where
  "disabled_search q =
     ''Web search is currently disabled. Provide `TAVILY_API_KEY` in the '' @
     ''environment to enable live sustainability research.''"

text \<open>\<^verbatim>\<open>if self._tavily_api_key:\<close> holds for a key that is neither \<^verbatim>\<open>None\<close> nor empty.\<close>

definition build_tool :: "int \<Rightarrow> string option \<Rightarrow> tool" where
  "build_tool k key =
     (case key of
        None \<Rightarrow> DisabledWebSearch
      | Some s \<Rightarrow> if s \<noteq> [] then TavilySearchResults k s else DisabledWebSearch)"

definition SustainabilityWebSearchTool_init :: "string option \<Rightarrow> int \<Rightarrow> SustainabilityWebSearchTool" where
  "SustainabilityWebSearchTool_init key k =
     \<lparr>search_k = k, search_tavily_api_key = key, search_tool = build_tool k key\<rparr>"

text \<open>
  The library's \<^verbatim>\<open>Tool.run\<close>: the provider's tool sends the query out, the fallback tool
  applies its local function.
\<close>

fun tool_run :: "environment \<Rightarrow> tool \<Rightarrow> string \<Rightarrow> trace \<Rightarrow> (error + pyvalue) \<times> trace" where
  "tool_run E (TavilySearchResults k key) q t = (tavily E t k key q, t @ [ProviderSearch k q])"
| "tool_run E DisabledWebSearch q t = (Inr (PyStr (disabled_search q)), t)"

definition web_search_run ::
  "environment \<Rightarrow> SustainabilityWebSearchTool \<Rightarrow> string \<Rightarrow> trace \<Rightarrow> (error + WebSearchResult) \<times> trace" where
  "web_search_run E st q t =
     (case tool_run E (search_tool st) q (t @ [SearchToolRun q]) of
        (Inl e, t') \<Rightarrow> (Inl e, t')
      | (Inr output, t') \<Rightarrow> (Inr \<lparr>query = q, raw_output = py_str (builtin E) output\<rparr>, t'))"

section \<open>Agent A (agents/fashion\_analyzer.py)\<close>

record FashionMaterialAnalyzer =
  analyzer_llm :: chat_client

definition analyzer_schema_keys :: "string list" where
  "analyzer_schema_keys = [''garment_summary'', ''components'', ''total_weight_grams'']"

definition FashionMaterialAnalyzer_init :: "Settings \<Rightarrow> chat_client option \<Rightarrow> error + FashionMaterialAnalyzer" where
  "FashionMaterialAnalyzer_init settings llm =
     (case llm of
        None \<Rightarrow>
          (if \<not> truthy (openai_api_key settings)
           then Inl (RuntimeError ''OPENAI_API_KEY is required to instantiate FashionMaterialAnalyzer.'')
           else (case openai_api_key settings of
                   None \<Rightarrow> Inl (RuntimeError ''OPENAI_API_KEY is required to instantiate FashionMaterialAnalyzer.'')
                 | Some key \<Rightarrow>
                     Inr \<lparr>analyzer_llm = ChatOpenAI (fashion_analyzer_model settings) (NumInt 0) key\<rparr>))
      | Some c \<Rightarrow> Inr \<lparr>analyzer_llm = c\<rparr>)"

text \<open>One entry of the list comprehension over \<^verbatim>\<open>components_raw\<close>: only a dict has \<^verbatim>\<open>get\<close>.\<close>

fun component_of_item :: "builtins \<Rightarrow> pyvalue \<Rightarrow> error + MaterialComponent" where
  "component_of_item B (PyDict item) =
     (let n = py_str B (dict_get item ''name'' (PyStr [])) in
      case py_float B (dict_get item ''percentage'' (PyFloat float_0_0)) of
        Inl e \<Rightarrow> Inl e
      | Inr p \<Rightarrow>
          (case py_float B (dict_get item ''weight_grams'' (PyFloat float_0_0)) of
             Inl e \<Rightarrow> Inl e
           | Inr w \<Rightarrow> Inr \<lparr>name = n, percentage = p, weight_grams = w\<rparr>))"
| "component_of_item B v = Inl AttributeError"

fun components_of_items :: "builtins \<Rightarrow> pyvalue list \<Rightarrow> error + MaterialComponent list" where
  "components_of_items B [] = Inr []"
| "components_of_items B (item # items) =
     (case component_of_item B item of
        Inl e \<Rightarrow> Inl e
      | Inr c \<Rightarrow>
          (case components_of_items B items of
             Inl e \<Rightarrow> Inl e
           | Inr cs \<Rightarrow> Inr (c # cs)))"

text \<open>
  \<^verbatim>\<open>for item in components_raw\<close>: a list yields its entries; a string yields one-character
  strings and a dict yields its keys, neither of which has \<^verbatim>\<open>get\<close>; nothing else can be
  iterated.
\<close>

fun components_of_raw :: "builtins \<Rightarrow> pyvalue \<Rightarrow> error + MaterialComponent list" where
  "components_of_raw B (PyList items) = components_of_items B items"
| "components_of_raw B (PyStr s) = (if s = [] then Inr [] else Inl AttributeError)"
| "components_of_raw B (PyDict d) = (if d = [] then Inr [] else Inl AttributeError)"
| "components_of_raw B v = Inl TypeError"

definition fashion_analysis_of_parsed :: "builtins \<Rightarrow> pydict \<Rightarrow> error + FashionAnalysis" where
  "fashion_analysis_of_parsed B parsed =
     (case components_of_raw B (dict_get parsed ''components'' (PyList [])) of
        Inl e \<Rightarrow> Inl e
      | Inr cs \<Rightarrow>
          (let total_weight = dict_get_none parsed ''total_weight_grams'' in
           case (if total_weight \<noteq> PyNone then map_sum id Some (py_float B total_weight) else Inr None) of
             Inl e \<Rightarrow> Inl e
           | Inr tw \<Rightarrow>
               Inr \<lparr>garment_summary = py_str B (dict_get parsed ''garment_summary'' (PyStr [])),
                    components = cs,
                    total_weight_grams = tw\<rparr>))"

text \<open>Only the parser's own exception is caught and raised again as a \<^verbatim>\<open>RuntimeError\<close>.\<close>

fun reraise_parse_failure :: "error \<Rightarrow> error" where
  "reraise_parse_failure (OutputParserException msg) = RuntimeError (''Failed to parse LLM response: '' @ msg)"
| "reraise_parse_failure e = e"

definition analyze ::
  "environment \<Rightarrow> FashionMaterialAnalyzer \<Rightarrow> string \<Rightarrow> string \<Rightarrow> trace \<Rightarrow> (error + FashionAnalysis) \<times> trace" where
  "analyze E agent image_reference user_context t =
     (let messages = AnalyzerVars image_reference
                       (if user_context \<noteq> [] then user_context else ''No additional context provided.'');
          t' = t @ [ModelInvoke (analyzer_llm agent) messages]
      in case invoke E t (analyzer_llm agent) messages of
           Inl e \<Rightarrow> (Inl e, t')
         | Inr content \<Rightarrow>
             (case parse E analyzer_schema_keys content of
                Inl e \<Rightarrow> (Inl (reraise_parse_failure e), t')
              | Inr parsed \<Rightarrow> (fashion_analysis_of_parsed (builtin E) parsed, t')))"

section \<open>Agent B (agents/sustainability\_estimator.py)\<close>

record SustainabilityEstimator =
  estimator_llm :: chat_client
  estimator_search_tool :: SustainabilityWebSearchTool

definition estimator_schema_keys :: "string list" where
  "estimator_schema_keys =
     [''water_liters'', ''co2_kg'', ''energy_kwh'', ''methodology_notes'', ''research_context'']"

text \<open>The temperature 0.2 of the estimator's client, as a binary64 pattern.\<close>

definition float_0_2 :: pyfloat where
  "float_0_2 = 0x3FC999999999999A"

text \<open>
  \<^verbatim>\<open>search_tool or SustainabilityWebSearchTool(tavily_api_key=...)\<close>: a search tool
  object is always truthy, so one that is handed in is kept; \<^verbatim>\<open>k\<close> defaults to 5.
\<close>

definition SustainabilityEstimator_init ::
  "Settings \<Rightarrow> chat_client option \<Rightarrow> SustainabilityWebSearchTool option \<Rightarrow> error + SustainabilityEstimator" where
  "SustainabilityEstimator_init settings analysis_agent search =
     (let st = (case search of
                  Some s \<Rightarrow> s
                | None \<Rightarrow> SustainabilityWebSearchTool_init (tavily_api_key settings) 5)
      in case analysis_agent of
           None \<Rightarrow>
             (if \<not> truthy (openai_api_key settings)
              then Inl (RuntimeError ''OPENAI_API_KEY is required to instantiate SustainabilityEstimator.'')
              else (case openai_api_key settings of
                      None \<Rightarrow> Inl (RuntimeError ''OPENAI_API_KEY is required to instantiate SustainabilityEstimator.'')
                    | Some key \<Rightarrow>
                        Inr \<lparr>estimator_llm =
                               ChatOpenAI (sustainability_analyzer_model settings) (NumFloat float_0_2) key,
                             estimator_search_tool = st\<rparr>))
         | Some c \<Rightarrow> Inr \<lparr>estimator_llm = c, estimator_search_tool = st\<rparr>)"

definition build_research_query :: "FashionAnalysis \<Rightarrow> string" where
  "build_research_query analysis =
     (let dominant_materials = map name (components analysis) in
      ''Lifecycle assessment water CO2 energy consumption for '' @
      join '', '' (take 3 dominant_materials))"

definition float_or_none :: "pyfloat option \<Rightarrow> pyvalue" where
  "float_or_none x = (case x of None \<Rightarrow> PyNone | Some f \<Rightarrow> PyFloat f)"

definition component_dict :: "MaterialComponent \<Rightarrow> pyvalue" where
  "component_dict component =
     PyDict [(''name'', PyStr (name component)),
             (''percentage'', PyFloat (percentage component)),
             (''weight_grams'', PyFloat (weight_grams component))]"

definition analysis_json :: "FashionAnalysis \<Rightarrow> pyvalue" where
  "analysis_json analysis =
     PyDict [(''garment_summary'', PyStr (garment_summary analysis)),
             (''total_weight_grams'', float_or_none (total_weight_grams analysis)),
             (''components'', PyList (map component_dict (components analysis)))]"

definition estimates_of_parsed :: "builtins \<Rightarrow> pydict \<Rightarrow> error + SustainabilityEstimates" where
  "estimates_of_parsed B parsed =
     (case py_float B (dict_get parsed ''water_liters'' (PyFloat float_0_0)) of
        Inl e \<Rightarrow> Inl e
      | Inr water \<Rightarrow>
     (case py_float B (dict_get parsed ''co2_kg'' (PyFloat float_0_0)) of
        Inl e \<Rightarrow> Inl e
      | Inr co2 \<Rightarrow>
     (case py_float B (dict_get parsed ''energy_kwh'' (PyFloat float_0_0)) of
        Inl e \<Rightarrow> Inl e
      | Inr energy \<Rightarrow>
          Inr \<lparr>water_liters = water, co2_kg = co2, energy_kwh = energy,
               methodology_notes = py_str B (dict_get parsed ''methodology_notes'' (PyStr [])),
               research_context = py_str B (dict_get parsed ''research_context'' (PyStr []))\<rparr>)))"

definition estimate ::
  "environment \<Rightarrow> SustainabilityEstimator \<Rightarrow> FashionAnalysis \<Rightarrow> trace \<Rightarrow> (error + SustainabilityEstimates) \<times> trace" where
  "estimate E agent analysis t =
     (if components analysis = []
      then (Inl (ValueError ''Fashion analysis does not contain any components to estimate.''), t)
      else
        (let research_query = build_research_query analysis in
         case web_search_run E (estimator_search_tool agent) research_query t of
           (Inl e, t1) \<Rightarrow> (Inl e, t1)
         | (Inr research_result, t1) \<Rightarrow>
             (let message = EstimatorVars (analysis_json analysis) (raw_output research_result);
                  t2 = t1 @ [ModelInvoke (estimator_llm agent) message]
              in case invoke E t1 (estimator_llm agent) message of
                   Inl e \<Rightarrow> (Inl e, t2)
                 | Inr content \<Rightarrow>
                     (case parse E estimator_schema_keys content of
                        Inl e \<Rightarrow> (Inl (reraise_parse_failure e), t2)
                      | Inr parsed \<Rightarrow> (estimates_of_parsed (builtin E) parsed, t2)))))"

section \<open>The orchestrator (agents/orchestrator.py)\<close>

record CollaborativeAgentOrchestrator =
  fashion_agent :: FashionMaterialAnalyzer
  sustainability_agent :: SustainabilityEstimator

definition CollaborativeAgentOrchestrator_init ::
  "Settings \<Rightarrow> FashionMaterialAnalyzer option \<Rightarrow> SustainabilityEstimator option
     \<Rightarrow> error + CollaborativeAgentOrchestrator" where
  "CollaborativeAgentOrchestrator_init settings fa sa =
     (case (case fa of Some a \<Rightarrow> Inr a | None \<Rightarrow> FashionMaterialAnalyzer_init settings None) of
        Inl e \<Rightarrow> Inl e
      | Inr a \<Rightarrow>
          (case (case sa of Some b \<Rightarrow> Inr b | None \<Rightarrow> SustainabilityEstimator_init settings None None) of
             Inl e \<Rightarrow> Inl e
           | Inr b \<Rightarrow> Inr \<lparr>fashion_agent = a, sustainability_agent = b\<rparr>))"

definition run ::
  "environment \<Rightarrow> CollaborativeAgentOrchestrator \<Rightarrow> string \<Rightarrow> string \<Rightarrow> trace
     \<Rightarrow> (error + OrchestratedResponse) \<times> trace" where
  "run E orch image_reference user_prompt t =
     (case analyze E (fashion_agent orch) image_reference user_prompt t of
        (Inl e, t1) \<Rightarrow> (Inl e, t1)
      | (Inr analysis, t1) \<Rightarrow>
          (case estimate E (sustainability_agent orch) analysis t1 of
             (Inl e, t2) \<Rightarrow> (Inl e, t2)
           | (Inr estimates, t2) \<Rightarrow>
               (Inr \<lparr>fashion_analysis = analysis, sustainability_estimates = estimates\<rparr>, t2)))"

definition estimates_dict :: "SustainabilityEstimates \<Rightarrow> pyvalue" where
  "estimates_dict est =
     PyDict [(''water_liters'', PyFloat (water_liters est)),
             (''co2_kg'', PyFloat (co2_kg est)),
             (''energy_kwh'', PyFloat (energy_kwh est)),
             (''methodology_notes'', PyStr (methodology_notes est)),
             (''research_context'', PyStr (research_context est))]"

definition to_dict :: "OrchestratedResponse \<Rightarrow> pyvalue" where
  "to_dict r =
     PyDict [(''fashion_analysis'',
              PyDict [(''garment_summary'', PyStr (garment_summary (fashion_analysis r))),
                      (''total_weight_grams'', float_or_none (total_weight_grams (fashion_analysis r))),
                      (''components'', PyList (map component_dict (components (fashion_analysis r))))]),
             (''sustainability_estimates'', estimates_dict (sustainability_estimates r))]"

section \<open>The entry point's serialisation (main.py)\<close>

text \<open>
  The entry point writes \<^verbatim>\<open>json.dumps(response.to_dict(), indent=2)\<close>. The layout of
  the library's encoder is written out: one entry per line, two spaces per nesting level,
  a comma after every entry but the last, a colon and a space after a key, and \<^verbatim>\<open>[]\<close> or
  \<^verbatim>\<open>{}\<close> for an empty container. The text of a number and the quoted, escaped text of
  a string are parameters.
\<close>

record json_encoder =
  encode_int :: "int \<Rightarrow> string"
  encode_float :: "pyfloat \<Rightarrow> string"
  encode_str :: "string \<Rightarrow> string"

definition newline_indent :: "nat \<Rightarrow> string" where
  "newline_indent level = CHR ''\<newline>'' # replicate (2 * level) CHR '' ''"

fun json_dumps :: "json_encoder \<Rightarrow> nat \<Rightarrow> pyvalue \<Rightarrow> string"
  and json_items :: "json_encoder \<Rightarrow> nat \<Rightarrow> pyvalue list \<Rightarrow> string list"
  and json_pairs :: "json_encoder \<Rightarrow> nat \<Rightarrow> (string \<times> pyvalue) list \<Rightarrow> string list" where
  "json_dumps X level PyNone = ''null''"
| "json_dumps X level (PyBool b) = (if b then ''true'' else ''false'')"
| "json_dumps X level (PyInt i) = encode_int X i"
| "json_dumps X level (PyFloat f) = encode_float X f"
| "json_dumps X level (PyStr s) = encode_str X s"
| "json_dumps X level (PyList xs) =
     (if xs = [] then ''[]''
      else ''['' @ newline_indent (level + 1)
           @ join ('','' @ newline_indent (level + 1)) (json_items X (level + 1) xs)
           @ newline_indent level @ '']'')"
| "json_dumps X level (PyDict d) =
     (if d = [] then ''{}''
      else ''{'' @ newline_indent (level + 1)
           @ join ('','' @ newline_indent (level + 1)) (json_pairs X (level + 1) d)
           @ newline_indent level @ ''}'')"
| "json_items X level [] = []"
| "json_items X level (x # xs) = json_dumps X level x # json_items X level xs"
| "json_pairs X level [] = []"
| "json_pairs X level ((key, v) # d) =
     (encode_str X key @ '': '' @ json_dumps X level v) # json_pairs X level d"

definition serialize :: "json_encoder \<Rightarrow> OrchestratedResponse \<Rightarrow> string" where
  "serialize X response = json_dumps X 0 (to_dict response)"

section \<open>Reference definitions and sample inputs\<close>

text \<open>
  The query as the specification words it: at most the first three \<^emph>\<open>distinct\<close>
  component names, in the order of their first occurrence. It is compared below with
  \<^const>\<open>build_research_query\<close>.
\<close>

fun first_distinct :: "string list \<Rightarrow> string list \<Rightarrow> string list" where
  "first_distinct seen [] = []"
| "first_distinct seen (x # xs) =
     (if x \<in> set seen then first_distinct seen xs else x # first_distinct (x # seen) xs)"

definition spec_research_query :: "FashionAnalysis \<Rightarrow> string" where
  "spec_research_query analysis =
     ''Lifecycle assessment water CO2 energy consumption for '' @
     join '', '' (take 3 (first_distinct [] (map name (components analysis))))"

text \<open>
  Modelled from the spec: the deserialisation of a serialised combined result. The
  repository only serialises (\<^verbatim>\<open>to_dict\<close>); the reader below takes each field back from
  the key \<^verbatim>\<open>to_dict\<close> writes it under, and accepts a value only at the type the data
  model gives the field.
\<close>

fun float_field :: "pyvalue option \<Rightarrow> pyfloat option" where
  "float_field (Some (PyFloat f)) = Some f"
| "float_field v = None"

fun str_field :: "pyvalue option \<Rightarrow> string option" where
  "str_field (Some (PyStr s)) = Some s"
| "str_field v = None"

fun optional_float_field :: "pyvalue option \<Rightarrow> pyfloat option option" where
  "optional_float_field (Some PyNone) = Some None"
| "optional_float_field (Some (PyFloat f)) = Some (Some f)"
| "optional_float_field v = None"

fun component_from_dict :: "pyvalue \<Rightarrow> MaterialComponent option" where
  "component_from_dict (PyDict d) =
     (case (str_field (map_of d ''name''),
            float_field (map_of d ''percentage''),
            float_field (map_of d ''weight_grams'')) of
        (Some n, Some p, Some w) \<Rightarrow> Some \<lparr>name = n, percentage = p, weight_grams = w\<rparr>
      | other \<Rightarrow> None)"
| "component_from_dict v = None"

fun components_from_list :: "pyvalue list \<Rightarrow> MaterialComponent list option" where
  "components_from_list [] = Some []"
| "components_from_list (v # vs) =
     (case (component_from_dict v, components_from_list vs) of
        (Some c, Some cs) \<Rightarrow> Some (c # cs)
      | other \<Rightarrow> None)"

fun analysis_from_dict :: "pyvalue option \<Rightarrow> FashionAnalysis option" where
  "analysis_from_dict (Some (PyDict d)) =
     (case (str_field (map_of d ''garment_summary''),
            optional_float_field (map_of d ''total_weight_grams''),
            map_of d ''components'') of
        (Some s, Some tw, Some (PyList vs)) \<Rightarrow>
          (case components_from_list vs of
             Some cs \<Rightarrow> Some \<lparr>garment_summary = s, components = cs, total_weight_grams = tw\<rparr>
           | None \<Rightarrow> None)
      | other \<Rightarrow> None)"
| "analysis_from_dict v = None"

fun estimates_from_dict :: "pyvalue option \<Rightarrow> SustainabilityEstimates option" where
  "estimates_from_dict (Some (PyDict d)) =
     (case (float_field (map_of d ''water_liters''),
            float_field (map_of d ''co2_kg''),
            float_field (map_of d ''energy_kwh''),
            str_field (map_of d ''methodology_notes''),
            str_field (map_of d ''research_context'')) of
        (Some w, Some c, Some e, Some m, Some r) \<Rightarrow>
          Some \<lparr>water_liters = w, co2_kg = c, energy_kwh = e,
                methodology_notes = m, research_context = r\<rparr>
      | other \<Rightarrow> None)"
| "estimates_from_dict v = None"

fun from_dict :: "pyvalue \<Rightarrow> OrchestratedResponse option" where
  "from_dict (PyDict d) =
     (case (analysis_from_dict (map_of d ''fashion_analysis''),
            estimates_from_dict (map_of d ''sustainability_estimates'')) of
        (Some a, Some e) \<Rightarrow> Some \<lparr>fashion_analysis = a, sustainability_estimates = e\<rparr>
      | other \<Rightarrow> None)"
| "from_dict v = None"

text \<open>
  A parsed response is well formed when each recognised field that is present holds a
  value of its documented type: the components are a list of dicts, and every number
  present is a value \<^verbatim>\<open>float\<close> accepts.
\<close>

definition float_accepts :: "builtins \<Rightarrow> pyvalue \<Rightarrow> bool" where
  "float_accepts B v = (case py_float B v of Inl e \<Rightarrow> False | Inr f \<Rightarrow> True)"

fun wellformed_item :: "builtins \<Rightarrow> pyvalue \<Rightarrow> bool" where
  "wellformed_item B (PyDict d) =
     (float_accepts B (dict_get d ''percentage'' (PyFloat float_0_0)) \<and>
      float_accepts B (dict_get d ''weight_grams'' (PyFloat float_0_0)))"
| "wellformed_item B v = False"

definition wellformed_analysis :: "builtins \<Rightarrow> pydict \<Rightarrow> bool" where
  "wellformed_analysis B parsed =
     ((case map_of parsed ''components'' of
         None \<Rightarrow> True
       | Some (PyList items) \<Rightarrow> list_all (wellformed_item B) items
       | Some other \<Rightarrow> False) \<and>
      (case map_of parsed ''total_weight_grams'' of
         None \<Rightarrow> True
       | Some PyNone \<Rightarrow> True
       | Some v \<Rightarrow> float_accepts B v))"

definition wellformed_estimates :: "builtins \<Rightarrow> pydict \<Rightarrow> bool" where
  "wellformed_estimates B parsed =
     (float_accepts B (dict_get parsed ''water_liters'' (PyFloat float_0_0)) \<and>
      float_accepts B (dict_get parsed ''co2_kg'' (PyFloat float_0_0)) \<and>
      float_accepts B (dict_get parsed ''energy_kwh'' (PyFloat float_0_0)))"

text \<open>
  Test doubles: builtins whose open parts refuse every int and string, a parser that
  finds no key, one that always fails, one that finds a single cotton component for
  agent A and a water figure for agent B, and providers that give the same canned reply
  whatever was called before.
\<close>

definition stub_builtins :: builtins where
  "stub_builtins =
     \<lparr>float_of_int = (\<lambda>i. Inl OverflowError),
      float_of_str = (\<lambda>s. Inl (ValueError s)),
      str_of_other = (\<lambda>v. [])\<rparr>"

definition empty_parser :: "string list \<Rightarrow> string \<Rightarrow> error + pydict" where
  "empty_parser keys text = Inr []"

definition failing_parser :: "string list \<Rightarrow> string \<Rightarrow> error + pydict" where
  "failing_parser keys text = Inl (OutputParserException ''missing keys'')"

definition sample_parser :: "string list \<Rightarrow> string \<Rightarrow> error + pydict" where
  "sample_parser keys text =
     (if keys = analyzer_schema_keys
      then Inr [(''components'', PyList [PyDict [(''name'', PyStr ''cotton'')]])]
      else Inr [(''water_liters'', PyFloat float_100_0)])"

definition mock_environment ::
  "(error + string) \<Rightarrow> (error + pyvalue) \<Rightarrow> (error + string)
     \<Rightarrow> (string list \<Rightarrow> string \<Rightarrow> error + pydict) \<Rightarrow> builtins \<Rightarrow> environment" where
  "mock_environment analyzer_reply search_reply estimator_reply parser B =
     \<lparr>invoke = (\<lambda>t c v. case v of AnalyzerVars i u \<Rightarrow> analyzer_reply
                                 | EstimatorVars a n \<Rightarrow> estimator_reply),
      tavily = (\<lambda>t k key q. search_reply),
      parse = parser,
      builtin = B\<rparr>"

text \<open>
  Two records of calls from which the providers reply alike: whatever calls are made
  next, the model provider and the search provider answer after the one record as they
  answer after the other.
\<close>

definition same_replies :: "environment \<Rightarrow> trace \<Rightarrow> trace \<Rightarrow> bool" where
  "same_replies E t1 t2 =
     (\<forall>s. (\<forall>c v. invoke E (t1 @ s) c v = invoke E (t2 @ s) c v)
        \<and> (\<forall>k key q. tavily E (t1 @ s) k key q = tavily E (t2 @ s) k key q))"

text \<open>
  More test doubles: a parser that stores the reply it is given in a text field, a model
  provider whose reply depends on how many calls were made before (it cycles with period
  three), and an encoder with fixed number text.
\<close>

definition echo_parser :: "string list \<Rightarrow> string \<Rightarrow> error + pydict" where
  "echo_parser keys text =
     (if keys = analyzer_schema_keys
      then Inr [(''garment_summary'', PyStr text),
                (''components'', PyList [PyDict [(''name'', PyStr ''cotton'')]])]
      else Inr [(''methodology_notes'', PyStr text)])"

definition cycling_environment :: environment where
  "cycling_environment =
     \<lparr>invoke = (\<lambda>t c v. Inr (if length t mod 3 = 0 then ''first'' else ''later'')),
      tavily = (\<lambda>t k key q. Inr (PyStr ''notes'')),
      parse = echo_parser,
      builtin = stub_builtins\<rparr>"

definition stub_encoder :: json_encoder where
  "stub_encoder =
     \<lparr>encode_int = (\<lambda>i. ''0''),
      encode_float = (\<lambda>f. ''0.0''),
      encode_str = (\<lambda>s. CHR 0x22 # s @ [CHR 0x22])\<rparr>"

definition cotton_tshirt :: FashionAnalysis where
  "cotton_tshirt =
     \<lparr>garment_summary = ''Cotton T-shirt'',
      components = [\<lparr>name = ''cotton'', percentage = float_100_0, weight_grams = float_200_0\<rparr>],
      total_weight_grams = Some float_200_0\<rparr>"

definition cotton_blend :: FashionAnalysis where
  "cotton_blend =
     \<lparr>garment_summary = ''Blend'',
      components = [\<lparr>name = ''cotton'', percentage = float_100_0, weight_grams = float_100_0\<rparr>,
                    \<lparr>name = ''cotton'', percentage = float_0_0, weight_grams = float_0_0\<rparr>,
                    \<lparr>name = ''wool'', percentage = float_0_0, weight_grams = float_100_0\<rparr>,
                    \<lparr>name = ''silk'', percentage = float_0_0, weight_grams = float_0_0\<rparr>],
      total_weight_grams = None\<rparr>"

definition mock_estimator :: SustainabilityEstimator where
  "mock_estimator =
     \<lparr>estimator_llm = InjectedClient ''mock'',
      estimator_search_tool = SustainabilityWebSearchTool_init None 5\<rparr>"

definition mock_orchestrator :: CollaborativeAgentOrchestrator where
  "mock_orchestrator =
     \<lparr>fashion_agent = \<lparr>analyzer_llm = InjectedClient ''mock''\<rparr>,
      sustainability_agent = mock_estimator\<rparr>"

section \<open>The research query\<close>

text \<open>The research queries recorded by a run of the estimation step.\<close>

lemma research_queries_append:
  "research_queries (t @ u) = research_queries t @ research_queries u"
  by (induction t rule: research_queries.induct) simp_all

lemma research_queries_tool_run:
  "research_queries (snd (tool_run E tool0 q t)) = research_queries t"
  by (cases tool0) (simp_all add: research_queries_append)

lemma research_queries_web_search_run:
  "research_queries (snd (web_search_run E st q t)) = research_queries t @ [q]"
proof -
  obtain r t' where tr: "tool_run E (search_tool st) q (t @ [SearchToolRun q]) = (r, t')"
    by (cases "tool_run E (search_tool st) q (t @ [SearchToolRun q])")
  have "research_queries t' = research_queries (t @ [SearchToolRun q])"
    using research_queries_tool_run [of E "search_tool st" q "t @ [SearchToolRun q]"] tr by simp
  then show ?thesis
    by (cases r) (simp_all add: web_search_run_def tr research_queries_append)
qed

lemma research_queries_estimate:
  assumes "components analysis \<noteq> []"
  shows "research_queries (snd (estimate E agent analysis t))
           = research_queries t @ [build_research_query analysis]"
proof -
  let ?q = "build_research_query analysis"
  obtain r t1 where ws: "web_search_run E (estimator_search_tool agent) ?q t = (r, t1)"
    by (cases "web_search_run E (estimator_search_tool agent) ?q t")
  have q1: "research_queries t1 = research_queries t @ [?q]"
    using research_queries_web_search_run [of E "estimator_search_tool agent" ?q t] ws by simp
  show ?thesis
  proof (cases r)
    case (Inl e)
    then show ?thesis using assms ws q1 by (simp add: estimate_def)
  next
    case (Inr res)
    then show ?thesis using assms ws q1
      by (simp add: estimate_def Let_def research_queries_append split: sum.splits)
  qed
qed

text \<open>
  Claim C1, as the specification words it, asks for the first three \<^emph>\<open>distinct\<close> names.
  The code takes the first three names as they stand: for the components cotton, cotton,
  wool, silk the query issued names cotton twice, where the specification's wording gives
  cotton, wool, silk.
\<close>

theorem research_query_distinct_counterexample:
  "research_queries (snd (estimate (mock_environment (Inr []) (Inr PyNone) (Inr []) empty_parser stub_builtins)
                            mock_estimator cotton_blend []))
     = [''Lifecycle assessment water CO2 energy consumption for cotton, cotton, wool'']
   \<and> spec_research_query cotton_blend
     = ''Lifecycle assessment water CO2 energy consumption for cotton, wool, silk''
   \<and> build_research_query cotton_blend \<noteq> spec_research_query cotton_blend"
  by (simp add: estimate_def web_search_run_def mock_estimator_def cotton_blend_def
      SustainabilityWebSearchTool_init_def build_tool_def build_research_query_def
      spec_research_query_def mock_environment_def empty_parser_def Let_def
      estimates_of_parsed_def dict_get_def stub_builtins_def)

text \<open>
  Claim C1, amended: for every analysis with at least one component, the estimation step
  issues exactly one research query, and that query is the prefix
  \<^verbatim>\<open>Lifecycle assessment water CO2 energy consumption for \<close> followed by at most the first
  three component names, in their original order and with repeated names kept, joined
  with a comma and a space.
\<close>

theorem estimate_issues_one_query:
  assumes "components analysis \<noteq> []"
  shows "research_queries (snd (estimate E agent analysis t))
           = research_queries t @ [build_research_query analysis]
         \<and> build_research_query analysis
           = ''Lifecycle assessment water CO2 energy consumption for '' @
             join '', '' (take 3 (map name (components analysis)))"
  using research_queries_estimate [OF assms] by (simp add: build_research_query_def)

theorem estimate_issues_one_query_witness:
  "components cotton_blend \<noteq> []
   \<and> research_queries (snd (estimate (mock_environment (Inr []) (Inr PyNone) (Inr []) empty_parser stub_builtins)
                            mock_estimator cotton_blend []))
     = [''Lifecycle assessment water CO2 energy consumption for cotton, cotton, wool'']"
proof -
  have ne: "components cotton_blend \<noteq> []" by (simp add: cotton_blend_def)
  show ?thesis
    using ne estimate_issues_one_query [OF ne,
        of "mock_environment (Inr []) (Inr PyNone) (Inr []) empty_parser stub_builtins" mock_estimator "[]"]
    by (simp add: cotton_blend_def)
qed

text \<open>
  Claim C2: when the analysis has no component, the estimation step raises the
  \<^verbatim>\<open>ValueError\<close> for invalid input and the record of calls is unchanged: neither the
  research lookup nor the model call is attempted, and no estimate is produced.
\<close>

theorem estimate_rejects_empty_components:
  assumes "components analysis = []"
  shows "estimate E agent analysis t
           = (Inl (ValueError ''Fashion analysis does not contain any components to estimate.''), t)"
  using assms by (simp add: estimate_def)

theorem estimate_rejects_empty_components_witness:
  "components \<lparr>garment_summary = ''Nothing'', components = [], total_weight_grams = None\<rparr> = []
   \<and> estimate (mock_environment (Inr []) (Inr PyNone) (Inr []) empty_parser stub_builtins) mock_estimator
        \<lparr>garment_summary = ''Nothing'', components = [], total_weight_grams = None\<rparr> []
       = (Inl (ValueError ''Fashion analysis does not contain any components to estimate.''), [])"
  using estimate_rejects_empty_components
    [of "\<lparr>garment_summary = ''Nothing'', components = [], total_weight_grams = None\<rparr>"
        "mock_environment (Inr []) (Inr PyNone) (Inr []) empty_parser stub_builtins" mock_estimator "[]"]
  by simp

text \<open>
  Claim C6: for the analysis with summary \<^verbatim>\<open>Cotton T-shirt\<close>, the single component cotton
  (100.0 percent, 200.0 grams) and total weight 200.0 grams, the one research lookup of
  the estimation step is made with the query
  \<^verbatim>\<open>Lifecycle assessment water CO2 energy consumption for cotton\<close>.
\<close>

theorem cotton_tshirt_research_query:
  "build_research_query cotton_tshirt
     = ''Lifecycle assessment water CO2 energy consumption for cotton''
   \<and> research_queries (snd (estimate E agent cotton_tshirt t))
     = research_queries t @ [''Lifecycle assessment water CO2 energy consumption for cotton'']"
proof -
  have q: "build_research_query cotton_tshirt
             = ''Lifecycle assessment water CO2 energy consumption for cotton''"
    by (simp add: build_research_query_def cotton_tshirt_def)
  have ne: "components cotton_tshirt \<noteq> []"
    by (simp add: cotton_tshirt_def)
  show ?thesis
    using research_queries_estimate [OF ne, of E agent t] q by simp
qed

section \<open>The disabled search and the search result\<close>

lemma build_tool_falsy: "\<not> truthy key \<Longrightarrow> build_tool k key = DisabledWebSearch"
  by (cases key) (simp_all add: build_tool_def)

text \<open>
  Claim C4: when no search credential is configured (the key is \<^verbatim>\<open>None\<close> or empty), the
  search returns, for every query, a result whose raw text is exactly the fixed advisory
  string, and it adds no outbound call to the record: only the run of the local tool is
  recorded.
\<close>

theorem disabled_search_is_local:
  assumes "\<not> truthy key"
  shows "web_search_run E (SustainabilityWebSearchTool_init key k) q t
           = (Inr \<lparr>query = q,
                   raw_output = ''Web search is currently disabled. Provide `TAVILY_API_KEY` in the environment to enable live sustainability research.''\<rparr>,
              t @ [SearchToolRun q])
         \<and> filter outbound (snd (web_search_run E (SustainabilityWebSearchTool_init key k) q t))
           = filter outbound t"
  using build_tool_falsy [OF assms, of k]
  by (simp add: web_search_run_def SustainabilityWebSearchTool_init_def disabled_search_def)

theorem disabled_search_is_local_witness:
  "\<not> truthy None
   \<and> web_search_run (mock_environment (Inr []) (Inr PyNone) (Inr []) empty_parser stub_builtins)
        (SustainabilityWebSearchTool_init None 5) ''anything'' []
       = (Inr \<lparr>query = ''anything'',
               raw_output = ''Web search is currently disabled. Provide `TAVILY_API_KEY` in the environment to enable live sustainability research.''\<rparr>,
          [SearchToolRun ''anything''])"
proof -
  have h: "\<not> truthy None" by simp
  show ?thesis
    using h disabled_search_is_local [OF h,
        of "mock_environment (Inr []) (Inr PyNone) (Inr []) empty_parser stub_builtins" 5 "''anything''" "[]"]
    by simp
qed

text \<open>
  Claim C10: whenever the underlying tool hands back an output for a query, the search
  returns a result whose query field is that query and whose raw text is \<^verbatim>\<open>str\<close> of the
  output: the output itself when it is a string, its text form otherwise.
\<close>

theorem web_search_run_wraps_output:
  assumes "tool_run E (search_tool st) q (t @ [SearchToolRun q]) = (Inr out, t')"
  shows "\<exists>r. web_search_run E st q t = (Inr r, t')
             \<and> query r = q
             \<and> raw_output r = py_str (builtin E) out
             \<and> (case out of PyStr s \<Rightarrow> raw_output r = s
                 | other \<Rightarrow> raw_output r = str_of_other (builtin E) out)"
  using assms by (cases out) (simp_all add: web_search_run_def)

theorem web_search_run_wraps_output_witness:
  "tool_run (mock_environment (Inr []) (Inr (PyList [PyInt 1])) (Inr []) empty_parser
               (stub_builtins\<lparr>str_of_other := (\<lambda>v. ''[1]'')\<rparr>))
     (search_tool (SustainabilityWebSearchTool_init (Some ''key'') 5)) ''wool''
     ([] @ [SearchToolRun ''wool''])
     = (Inr (PyList [PyInt 1]), [SearchToolRun ''wool'', ProviderSearch 5 ''wool''])
   \<and> web_search_run (mock_environment (Inr []) (Inr (PyList [PyInt 1])) (Inr []) empty_parser
               (stub_builtins\<lparr>str_of_other := (\<lambda>v. ''[1]'')\<rparr>))
        (SustainabilityWebSearchTool_init (Some ''key'') 5) ''wool'' []
       = (Inr \<lparr>query = ''wool'', raw_output = ''[1]''\<rparr>,
          [SearchToolRun ''wool'', ProviderSearch 5 ''wool''])"
proof -
  let ?E = "mock_environment (Inr []) (Inr (PyList [PyInt 1])) (Inr []) empty_parser
               (stub_builtins\<lparr>str_of_other := (\<lambda>v. ''[1]'')\<rparr>)"
  let ?st = "SustainabilityWebSearchTool_init (Some ''key'') 5"
  have h: "tool_run ?E (search_tool ?st) ''wool'' ([] @ [SearchToolRun ''wool''])
             = (Inr (PyList [PyInt 1]), [SearchToolRun ''wool'', ProviderSearch 5 ''wool''])"
    by (simp add: SustainabilityWebSearchTool_init_def build_tool_def mock_environment_def)
  from web_search_run_wraps_output [OF h]
  obtain r where r: "web_search_run ?E ?st ''wool'' []
                       = (Inr r, [SearchToolRun ''wool'', ProviderSearch 5 ''wool''])"
      "query r = ''wool''" "raw_output r = py_str (builtin ?E) (PyList [PyInt 1])"
    by blast
  have "raw_output r = ''[1]''"
    using r(3) by (simp add: mock_environment_def stub_builtins_def)
  with r(1,2) have "web_search_run ?E ?st ''wool'' []
       = (Inr \<lparr>query = ''wool'', raw_output = ''[1]''\<rparr>,
          [SearchToolRun ''wool'', ProviderSearch 5 ''wool''])"
    by (cases r) simp
  with h show ?thesis by simp
qed

section \<open>Credentials at construction\<close>

text \<open>
  Claim C9: with no chat client handed in and the model provider's key absent, both
  agents' constructors fail with the \<^verbatim>\<open>RuntimeError\<close> for the missing key (and so does
  the orchestrator's, which builds them); the constructors take no environment, so no
  call can precede the failure. An absent search key is not an error: the estimator is
  built with the disabled-search tool.
\<close>

theorem credentials_at_construction:
  "(\<not> truthy (openai_api_key settings) \<longrightarrow>
      FashionMaterialAnalyzer_init settings None
        = Inl (RuntimeError ''OPENAI_API_KEY is required to instantiate FashionMaterialAnalyzer.'')
      \<and> SustainabilityEstimator_init settings None search
        = Inl (RuntimeError ''OPENAI_API_KEY is required to instantiate SustainabilityEstimator.'')
      \<and> CollaborativeAgentOrchestrator_init settings None estimator
        = Inl (RuntimeError ''OPENAI_API_KEY is required to instantiate FashionMaterialAnalyzer.''))
   \<and> (\<not> truthy (tavily_api_key settings) \<longrightarrow>
        (\<exists>agent. SustainabilityEstimator_init settings (Some c) None = Inr agent
                 \<and> search_tool (estimator_search_tool agent) = DisabledWebSearch)
        \<and> (truthy (openai_api_key settings) \<longrightarrow>
             (\<exists>agent. SustainabilityEstimator_init settings None None = Inr agent
                      \<and> search_tool (estimator_search_tool agent) = DisabledWebSearch)))"
proof (intro conjI impI)
  assume "\<not> truthy (openai_api_key settings)"
  then show "FashionMaterialAnalyzer_init settings None
        = Inl (RuntimeError ''OPENAI_API_KEY is required to instantiate FashionMaterialAnalyzer.'')"
    by (simp add: FashionMaterialAnalyzer_init_def)
next
  assume "\<not> truthy (openai_api_key settings)"
  then show "SustainabilityEstimator_init settings None search
        = Inl (RuntimeError ''OPENAI_API_KEY is required to instantiate SustainabilityEstimator.'')"
    by (simp add: SustainabilityEstimator_init_def)
next
  assume "\<not> truthy (openai_api_key settings)"
  then show "CollaborativeAgentOrchestrator_init settings None estimator
        = Inl (RuntimeError ''OPENAI_API_KEY is required to instantiate FashionMaterialAnalyzer.'')"
    by (simp add: CollaborativeAgentOrchestrator_init_def FashionMaterialAnalyzer_init_def)
next
  assume "\<not> truthy (tavily_api_key settings)"
  then show "\<exists>agent. SustainabilityEstimator_init settings (Some c) None = Inr agent
                 \<and> search_tool (estimator_search_tool agent) = DisabledWebSearch"
    by (simp add: SustainabilityEstimator_init_def SustainabilityWebSearchTool_init_def
        build_tool_falsy)
next
  assume "\<not> truthy (tavily_api_key settings)" "truthy (openai_api_key settings)"
  then show "\<exists>agent. SustainabilityEstimator_init settings None None = Inr agent
                      \<and> search_tool (estimator_search_tool agent) = DisabledWebSearch"
    by (cases "openai_api_key settings")
       (simp_all add: SustainabilityEstimator_init_def SustainabilityWebSearchTool_init_def
        build_tool_falsy)
qed

theorem credentials_at_construction_witness:
  "\<not> truthy (openai_api_key \<lparr>openai_api_key = None, tavily_api_key = None,
        fashion_analyzer_model = ''gpt-4o-mini'', sustainability_analyzer_model = ''gpt-4o-mini''\<rparr>)
   \<and> FashionMaterialAnalyzer_init \<lparr>openai_api_key = None, tavily_api_key = None,
        fashion_analyzer_model = ''gpt-4o-mini'', sustainability_analyzer_model = ''gpt-4o-mini''\<rparr> None
      = Inl (RuntimeError ''OPENAI_API_KEY is required to instantiate FashionMaterialAnalyzer.'')
   \<and> SustainabilityEstimator_init \<lparr>openai_api_key = None, tavily_api_key = None,
        fashion_analyzer_model = ''gpt-4o-mini'', sustainability_analyzer_model = ''gpt-4o-mini''\<rparr> None None
      = Inl (RuntimeError ''OPENAI_API_KEY is required to instantiate SustainabilityEstimator.'')
   \<and> \<not> truthy (tavily_api_key \<lparr>openai_api_key = Some ''sk'', tavily_api_key = Some [],
        fashion_analyzer_model = ''gpt-4o-mini'', sustainability_analyzer_model = ''gpt-4o-mini''\<rparr>)
   \<and> truthy (openai_api_key \<lparr>openai_api_key = Some ''sk'', tavily_api_key = Some [],
        fashion_analyzer_model = ''gpt-4o-mini'', sustainability_analyzer_model = ''gpt-4o-mini''\<rparr>)
   \<and> (\<exists>agent. SustainabilityEstimator_init \<lparr>openai_api_key = Some ''sk'', tavily_api_key = Some [],
        fashion_analyzer_model = ''gpt-4o-mini'', sustainability_analyzer_model = ''gpt-4o-mini''\<rparr> None None
          = Inr agent \<and> search_tool (estimator_search_tool agent) = DisabledWebSearch)"
  using credentials_at_construction
    [of "\<lparr>openai_api_key = None, tavily_api_key = None,
        fashion_analyzer_model = ''gpt-4o-mini'', sustainability_analyzer_model = ''gpt-4o-mini''\<rparr>" None None "InjectedClient []"]
    credentials_at_construction
    [of "\<lparr>openai_api_key = Some ''sk'', tavily_api_key = Some [],
        fashion_analyzer_model = ''gpt-4o-mini'', sustainability_analyzer_model = ''gpt-4o-mini''\<rparr>" None None "InjectedClient []"]
  by simp

section \<open>The orchestrator\<close>

lemma analyze_trace:
  "snd (analyze E agent img p t)
     = t @ [ModelInvoke (analyzer_llm agent)
              (AnalyzerVars img (if p \<noteq> [] then p else ''No additional context provided.''))]"
  by (simp add: analyze_def Let_def split: sum.splits)

lemma run_analyze_fails:
  assumes "analyze E (fashion_agent orch) img p t = (Inl e, t1)"
  shows "run E orch img p t = (Inl e, t1)"
  using assms by (simp add: run_def)

lemma run_estimate_fails:
  assumes "analyze E (fashion_agent orch) img p t = (Inr a, t1)"
      and "estimate E (sustainability_agent orch) a t1 = (Inl e, t2)"
  shows "run E orch img p t = (Inl e, t2)"
  using assms by (simp add: run_def)

lemma run_succeeds:
  assumes "run E orch img p t = (Inr r, t2)"
  shows "\<exists>t1. analyze E (fashion_agent orch) img p t = (Inr (fashion_analysis r), t1)
            \<and> estimate E (sustainability_agent orch) (fashion_analysis r) t1
                = (Inr (sustainability_estimates r), t2)"
proof -
  obtain x t1 where a: "analyze E (fashion_agent orch) img p t = (x, t1)"
    by (cases "analyze E (fashion_agent orch) img p t")
  show ?thesis
  proof (cases x)
    case (Inl e)
    then show ?thesis using assms a by (simp add: run_def)
  next
    case (Inr an)
    obtain y u where b: "estimate E (sustainability_agent orch) an t1 = (y, u)"
      by (cases "estimate E (sustainability_agent orch) an t1")
    show ?thesis
    proof (cases y)
      case (Inl e)
      then show ?thesis using assms a Inr b by (simp add: run_def)
    next
      case (Inr es)
      then show ?thesis using assms a \<open>x = Inr an\<close> b by (auto simp: run_def)
    qed
  qed
qed

lemma analyze_parse_failure:
  assumes "invoke E t (analyzer_llm agent)
             (AnalyzerVars img (if p \<noteq> [] then p else ''No additional context provided.''))
           = Inr content"
      and "parse E analyzer_schema_keys content = Inl (OutputParserException msg)"
  shows "analyze E agent img p t
           = (Inl (RuntimeError (''Failed to parse LLM response: '' @ msg)),
              t @ [ModelInvoke (analyzer_llm agent)
                     (AnalyzerVars img (if p \<noteq> [] then p else ''No additional context provided.''))])"
  using assms by (simp add: analyze_def Let_def)

text \<open>
  Claim C5: a failure of the extraction step is the result of the run, unchanged, and
  the only call recorded is the extraction's model call, so the estimation step was not
  invoked; a failure of the estimation step is the result of the run, unchanged; a
  combined result is produced only when both steps succeeded, and holds their two
  results. In particular, when the parser rejects the extraction's response, the run
  fails with the \<^verbatim>\<open>RuntimeError\<close> that wraps the parser's message, after the single model
  call.
\<close>

theorem run_propagates_failures:
  "(\<forall>e t1. analyze E (fashion_agent orch) img p t = (Inl e, t1) \<longrightarrow>
       run E orch img p t = (Inl e, t1)
       \<and> t1 = t @ [ModelInvoke (analyzer_llm (fashion_agent orch))
                    (AnalyzerVars img (if p \<noteq> [] then p else ''No additional context provided.''))])
   \<and> (\<forall>a t1 e t2. analyze E (fashion_agent orch) img p t = (Inr a, t1)
          \<and> estimate E (sustainability_agent orch) a t1 = (Inl e, t2) \<longrightarrow>
        run E orch img p t = (Inl e, t2))
   \<and> (\<forall>r t2. run E orch img p t = (Inr r, t2) \<longrightarrow>
        (\<exists>t1. analyze E (fashion_agent orch) img p t = (Inr (fashion_analysis r), t1)
            \<and> estimate E (sustainability_agent orch) (fashion_analysis r) t1
                = (Inr (sustainability_estimates r), t2)))
   \<and> (\<forall>content msg.
         invoke E t (analyzer_llm (fashion_agent orch))
             (AnalyzerVars img (if p \<noteq> [] then p else ''No additional context provided.''))
           = Inr content
         \<and> parse E analyzer_schema_keys content = Inl (OutputParserException msg) \<longrightarrow>
         run E orch img p t
           = (Inl (RuntimeError (''Failed to parse LLM response: '' @ msg)),
              t @ [ModelInvoke (analyzer_llm (fashion_agent orch))
                     (AnalyzerVars img (if p \<noteq> [] then p else ''No additional context provided.''))]))"
proof (intro conjI allI impI)
  fix e t1
  assume a: "analyze E (fashion_agent orch) img p t = (Inl e, t1)"
  show "run E orch img p t = (Inl e, t1)"
    by (rule run_analyze_fails [OF a])
  show "t1 = t @ [ModelInvoke (analyzer_llm (fashion_agent orch))
                    (AnalyzerVars img (if p \<noteq> [] then p else ''No additional context provided.''))]"
    using analyze_trace [of E "fashion_agent orch" img p t] a by simp
next
  fix a t1 e t2
  assume "analyze E (fashion_agent orch) img p t = (Inr a, t1)
          \<and> estimate E (sustainability_agent orch) a t1 = (Inl e, t2)"
  then show "run E orch img p t = (Inl e, t2)"
    using run_estimate_fails by blast
next
  fix r t2
  assume "run E orch img p t = (Inr r, t2)"
  then show "\<exists>t1. analyze E (fashion_agent orch) img p t = (Inr (fashion_analysis r), t1)
            \<and> estimate E (sustainability_agent orch) (fashion_analysis r) t1
                = (Inr (sustainability_estimates r), t2)"
    by (rule run_succeeds)
next
  fix content msg
  assume "invoke E t (analyzer_llm (fashion_agent orch))
             (AnalyzerVars img (if p \<noteq> [] then p else ''No additional context provided.''))
           = Inr content
         \<and> parse E analyzer_schema_keys content = Inl (OutputParserException msg)"
  then have "analyze E (fashion_agent orch) img p t
           = (Inl (RuntimeError (''Failed to parse LLM response: '' @ msg)),
              t @ [ModelInvoke (analyzer_llm (fashion_agent orch))
                     (AnalyzerVars img (if p \<noteq> [] then p else ''No additional context provided.''))])"
    using analyze_parse_failure by blast
  then show "run E orch img p t
           = (Inl (RuntimeError (''Failed to parse LLM response: '' @ msg)),
              t @ [ModelInvoke (analyzer_llm (fashion_agent orch))
                     (AnalyzerVars img (if p \<noteq> [] then p else ''No additional context provided.''))])"
    by (rule run_analyze_fails)
qed

theorem run_propagates_failures_witness:
  "run (mock_environment (Inr ''{}'') (Inr PyNone) (Inr ''{}'') failing_parser stub_builtins)
       mock_orchestrator ''img'' [] []
     = (Inl (RuntimeError ''Failed to parse LLM response: missing keys''),
        [ModelInvoke (InjectedClient ''mock'')
           (AnalyzerVars ''img'' ''No additional context provided.'')])
   \<and> run (mock_environment (Inr ''{}'') (Inr PyNone) (Inr ''{}'') empty_parser stub_builtins)
       mock_orchestrator ''img'' [] []
     = (Inl (ValueError ''Fashion analysis does not contain any components to estimate.''),
        [ModelInvoke (InjectedClient ''mock'')
           (AnalyzerVars ''img'' ''No additional context provided.'')])
   \<and> run (mock_environment (Inr ''{}'') (Inr PyNone) (Inr ''{}'') sample_parser stub_builtins)
       mock_orchestrator ''img'' ''a shirt'' []
     = (Inr \<lparr>fashion_analysis =
               \<lparr>garment_summary = [],
                components = [\<lparr>name = ''cotton'', percentage = float_0_0, weight_grams = float_0_0\<rparr>],
                total_weight_grams = None\<rparr>,
             sustainability_estimates =
               \<lparr>water_liters = float_100_0, co2_kg = float_0_0, energy_kwh = float_0_0,
                methodology_notes = [], research_context = []\<rparr>\<rparr>,
        [ModelInvoke (InjectedClient ''mock'') (AnalyzerVars ''img'' ''a shirt''),
         SearchToolRun ''Lifecycle assessment water CO2 energy consumption for cotton'',
         ModelInvoke (InjectedClient ''mock'')
           (EstimatorVars
              (analysis_json \<lparr>garment_summary = [],
                components = [\<lparr>name = ''cotton'', percentage = float_0_0, weight_grams = float_0_0\<rparr>],
                total_weight_grams = None\<rparr>)
              (disabled_search ''Lifecycle assessment water CO2 energy consumption for cotton''))])
   \<and> (\<exists>t1. analyze (mock_environment (Inr ''{}'') (Inr PyNone) (Inr ''{}'') sample_parser stub_builtins)
               (fashion_agent mock_orchestrator) ''img'' ''a shirt'' []
             = (Inr \<lparr>garment_summary = [],
                components = [\<lparr>name = ''cotton'', percentage = float_0_0, weight_grams = float_0_0\<rparr>],
                total_weight_grams = None\<rparr>, t1))"
proof -
  let ?F = "mock_environment (Inr ''{}'') (Inr PyNone) (Inr ''{}'') failing_parser stub_builtins"
  let ?N = "mock_environment (Inr ''{}'') (Inr PyNone) (Inr ''{}'') empty_parser stub_builtins"
  let ?call = "ModelInvoke (InjectedClient ''mock'')
                 (AnalyzerVars ''img'' ''No additional context provided.'')"
  have f: "invoke ?F [] (analyzer_llm (fashion_agent mock_orchestrator))
             (AnalyzerVars ''img'' (if [] \<noteq> [] then [] else ''No additional context provided.''))
           = Inr ''{}''
         \<and> parse ?F analyzer_schema_keys ''{}'' = Inl (OutputParserException ''missing keys'')"
    by (simp add: mock_environment_def failing_parser_def)
  have one: "run ?F mock_orchestrator ''img'' [] []
               = (Inl (RuntimeError ''Failed to parse LLM response: missing keys''), [?call])"
    using run_propagates_failures [of ?F mock_orchestrator "''img''" "[]" "[]"] f
    by (simp add: mock_orchestrator_def)
  have a: "analyze ?N (fashion_agent mock_orchestrator) ''img'' [] []
             = (Inr \<lparr>garment_summary = [], components = [], total_weight_grams = None\<rparr>, [?call])"
    by (simp add: analyze_def mock_environment_def empty_parser_def mock_orchestrator_def
        fashion_analysis_of_parsed_def dict_get_def dict_get_none_def Let_def)
  have b: "estimate ?N (sustainability_agent mock_orchestrator)
             \<lparr>garment_summary = [], components = [], total_weight_grams = None\<rparr> [?call]
             = (Inl (ValueError ''Fashion analysis does not contain any components to estimate.''),
                [?call])"
    by (simp add: estimate_def)
  have two: "run ?N mock_orchestrator ''img'' [] []
               = (Inl (ValueError ''Fashion analysis does not contain any components to estimate.''),
                  [?call])"
    using run_propagates_failures [of ?N mock_orchestrator "''img''" "[]" "[]"] a b
    by blast
  let ?S = "mock_environment (Inr ''{}'') (Inr PyNone) (Inr ''{}'') sample_parser stub_builtins"
  let ?a = "\<lparr>garment_summary = [],
                components = [\<lparr>name = ''cotton'', percentage = float_0_0, weight_grams = float_0_0\<rparr>],
                total_weight_grams = None\<rparr>"
  let ?r = "\<lparr>fashion_analysis = ?a,
             sustainability_estimates =
               \<lparr>water_liters = float_100_0, co2_kg = float_0_0, energy_kwh = float_0_0,
                methodology_notes = [], research_context = []\<rparr>\<rparr>"
  let ?t = "[ModelInvoke (InjectedClient ''mock'') (AnalyzerVars ''img'' ''a shirt''),
         SearchToolRun ''Lifecycle assessment water CO2 energy consumption for cotton'',
         ModelInvoke (InjectedClient ''mock'')
           (EstimatorVars (analysis_json ?a)
              (disabled_search ''Lifecycle assessment water CO2 energy consumption for cotton''))]"
  have an: "analyze ?S (fashion_agent mock_orchestrator) ''img'' ''a shirt'' []
              = (Inr ?a, [ModelInvoke (InjectedClient ''mock'') (AnalyzerVars ''img'' ''a shirt'')])"
    by (simp add: analyze_def mock_environment_def sample_parser_def mock_orchestrator_def
        fashion_analysis_of_parsed_def dict_get_def dict_get_none_def Let_def)
  have es: "estimate ?S (sustainability_agent mock_orchestrator) ?a
              [ModelInvoke (InjectedClient ''mock'') (AnalyzerVars ''img'' ''a shirt'')]
              = (Inr (sustainability_estimates ?r), ?t)"
    by (simp add: estimate_def web_search_run_def mock_environment_def sample_parser_def
        mock_orchestrator_def mock_estimator_def SustainabilityWebSearchTool_init_def
        build_tool_def build_research_query_def estimates_of_parsed_def dict_get_def Let_def
        analyzer_schema_keys_def estimator_schema_keys_def)
  have three: "run ?S mock_orchestrator ''img'' ''a shirt'' [] = (Inr ?r, ?t)"
    using an es by (simp add: run_def)
  from run_propagates_failures [of ?S mock_orchestrator "''img''" "''a shirt''" "[]"] three
  have "\<exists>t1. analyze ?S (fashion_agent mock_orchestrator) ''img'' ''a shirt'' []
             = (Inr (fashion_analysis ?r), t1)
           \<and> estimate ?S (sustainability_agent mock_orchestrator) (fashion_analysis ?r) t1
             = (Inr (sustainability_estimates ?r), ?t)"
    by blast
  then have four: "\<exists>t1. analyze ?S (fashion_agent mock_orchestrator) ''img'' ''a shirt'' []
             = (Inr ?a, t1)"
    by auto
  from one two three four show ?thesis by simp
qed

section \<open>Repeated runs\<close>

text \<open>
  \<^verbatim>\<open>run\<close> assigns no attribute of the orchestrator, of its agents or of the search tool;
  what a later run inherits from an earlier one is the record of the calls the providers
  have seen. The providers may reply differently after a different record.
\<close>

lemma same_replies_append:
  assumes "same_replies E t1 t2"
  shows "same_replies E (t1 @ u) (t2 @ u)"
  unfolding same_replies_def
proof (intro allI conjI)
  fix s c v
  show "invoke E ((t1 @ u) @ s) c v = invoke E ((t2 @ u) @ s) c v"
    using assms by (simp add: same_replies_def)
next
  fix s k key q
  show "tavily E ((t1 @ u) @ s) k key q = tavily E ((t2 @ u) @ s) k key q"
    using assms by (simp add: same_replies_def)
qed

lemma same_replies_invoke:
  assumes "same_replies E t1 t2"
  shows "invoke E t1 c v = invoke E t2 c v"
proof -
  from assms have "invoke E (t1 @ []) c v = invoke E (t2 @ []) c v"
    unfolding same_replies_def by blast
  then show ?thesis by simp
qed

lemma same_replies_tavily:
  assumes "same_replies E t1 t2"
  shows "tavily E t1 k key q = tavily E t2 k key q"
proof -
  from assms have "tavily E (t1 @ []) k key q = tavily E (t2 @ []) k key q"
    unfolding same_replies_def by blast
  then show ?thesis by simp
qed

lemma analyze_same_replies:
  assumes "same_replies E t1 t2"
  shows "fst (analyze E agent img p t1) = fst (analyze E agent img p t2)"
  using same_replies_invoke [OF assms]
  by (simp add: analyze_def Let_def split: sum.splits)

lemma tool_run_same_replies:
  assumes "same_replies E t1 t2"
  shows "\<exists>s. tool_run E tool0 q t1 = (fst (tool_run E tool0 q t2), t1 @ s)
           \<and> snd (tool_run E tool0 q t2) = t2 @ s"
proof (cases tool0)
  case (TavilySearchResults k key)
  then show ?thesis using same_replies_tavily [OF assms] by simp
next
  case DisabledWebSearch
  then show ?thesis by simp
qed

lemma web_search_run_same_replies:
  assumes "same_replies E t1 t2"
  shows "\<exists>s. web_search_run E st q t1 = (fst (web_search_run E st q t2), t1 @ s)
           \<and> snd (web_search_run E st q t2) = t2 @ s"
proof -
  have "same_replies E (t1 @ [SearchToolRun q]) (t2 @ [SearchToolRun q])"
    by (rule same_replies_append [OF assms])
  from tool_run_same_replies [OF this, of "search_tool st" q]
  obtain s where s: "tool_run E (search_tool st) q (t1 @ [SearchToolRun q])
                       = (fst (tool_run E (search_tool st) q (t2 @ [SearchToolRun q])),
                          (t1 @ [SearchToolRun q]) @ s)"
      "snd (tool_run E (search_tool st) q (t2 @ [SearchToolRun q])) = (t2 @ [SearchToolRun q]) @ s"
    by blast
  obtain r where r: "tool_run E (search_tool st) q (t2 @ [SearchToolRun q])
                       = (r, (t2 @ [SearchToolRun q]) @ s)"
    using s(2) by (cases "tool_run E (search_tool st) q (t2 @ [SearchToolRun q])") simp
  have "web_search_run E st q t1 = (fst (web_search_run E st q t2), t1 @ (SearchToolRun q # s))
        \<and> snd (web_search_run E st q t2) = t2 @ (SearchToolRun q # s)"
    using s(1) r by (cases r) (simp_all add: web_search_run_def)
  then show ?thesis by blast
qed

lemma estimate_same_replies:
  assumes "same_replies E t1 t2"
  shows "\<exists>s. estimate E agent analysis t1 = (fst (estimate E agent analysis t2), t1 @ s)
           \<and> snd (estimate E agent analysis t2) = t2 @ s"
proof (cases "components analysis = []")
  case True
  then have "estimate E agent analysis t1 = (fst (estimate E agent analysis t2), t1 @ [])
           \<and> snd (estimate E agent analysis t2) = t2 @ []"
    by (simp add: estimate_def)
  then show ?thesis by blast
next
  case False
  let ?q = "build_research_query analysis"
  from web_search_run_same_replies [OF assms, of "estimator_search_tool agent" ?q]
  obtain s where s: "web_search_run E (estimator_search_tool agent) ?q t1
                       = (fst (web_search_run E (estimator_search_tool agent) ?q t2), t1 @ s)"
      "snd (web_search_run E (estimator_search_tool agent) ?q t2) = t2 @ s"
    by blast
  obtain r where r: "web_search_run E (estimator_search_tool agent) ?q t2 = (r, t2 @ s)"
    using s(2) by (cases "web_search_run E (estimator_search_tool agent) ?q t2") simp
  have r1: "web_search_run E (estimator_search_tool agent) ?q t1 = (r, t1 @ s)"
    using s(1) r by simp
  show ?thesis
  proof (cases r)
    case (Inl e)
    then have "estimate E agent analysis t1 = (fst (estimate E agent analysis t2), t1 @ s)
           \<and> snd (estimate E agent analysis t2) = t2 @ s"
      using False r r1 by (simp add: estimate_def)
    then show ?thesis by blast
  next
    case (Inr res)
    let ?m = "EstimatorVars (analysis_json analysis) (raw_output res)"
    have inv: "invoke E (t1 @ s) (estimator_llm agent) ?m = invoke E (t2 @ s) (estimator_llm agent) ?m"
      by (rule same_replies_invoke [OF same_replies_append [OF assms]])
    have "estimate E agent analysis t1
            = (fst (estimate E agent analysis t2), t1 @ (s @ [ModelInvoke (estimator_llm agent) ?m]))
           \<and> snd (estimate E agent analysis t2) = t2 @ (s @ [ModelInvoke (estimator_llm agent) ?m])"
      using False r r1 Inr inv by (simp add: estimate_def Let_def split: sum.splits)
    then show ?thesis by blast
  qed
qed

lemma run_same_replies:
  assumes "same_replies E t1 t2"
  shows "\<exists>s. run E orch img p t1 = (fst (run E orch img p t2), t1 @ s)
           \<and> snd (run E orch img p t2) = t2 @ s"
proof -
  let ?A = "ModelInvoke (analyzer_llm (fashion_agent orch))
              (AnalyzerVars img (if p \<noteq> [] then p else ''No additional context provided.''))"
  obtain r where r: "analyze E (fashion_agent orch) img p t2 = (r, t2 @ [?A])"
    using analyze_trace [of E "fashion_agent orch" img p t2]
    by (cases "analyze E (fashion_agent orch) img p t2") simp
  have r1: "analyze E (fashion_agent orch) img p t1 = (r, t1 @ [?A])"
    using analyze_trace [of E "fashion_agent orch" img p t1]
      analyze_same_replies [OF assms, of "fashion_agent orch" img p] r
    by (cases "analyze E (fashion_agent orch) img p t1") simp
  show ?thesis
  proof (cases r)
    case (Inl e)
    then have "run E orch img p t1 = (fst (run E orch img p t2), t1 @ [?A])
           \<and> snd (run E orch img p t2) = t2 @ [?A]"
      using r r1 by (simp add: run_def)
    then show ?thesis by blast
  next
    case (Inr an)
    have "same_replies E (t1 @ [?A]) (t2 @ [?A])"
      by (rule same_replies_append [OF assms])
    from estimate_same_replies [OF this, of "sustainability_agent orch" an]
    obtain s where s: "estimate E (sustainability_agent orch) an (t1 @ [?A])
                         = (fst (estimate E (sustainability_agent orch) an (t2 @ [?A])), (t1 @ [?A]) @ s)"
        "snd (estimate E (sustainability_agent orch) an (t2 @ [?A])) = (t2 @ [?A]) @ s"
      by blast
    obtain y where y: "estimate E (sustainability_agent orch) an (t2 @ [?A]) = (y, (t2 @ [?A]) @ s)"
      using s(2) by (cases "estimate E (sustainability_agent orch) an (t2 @ [?A])") simp
    have "run E orch img p t1 = (fst (run E orch img p t2), t1 @ (?A # s))
           \<and> snd (run E orch img p t2) = t2 @ (?A # s)"
      using r r1 Inr s(1) y by (cases y) (simp_all add: run_def)
    then show ?thesis by blast
  qed
qed

lemma cycling_run_from_start:
  "run cycling_environment mock_orchestrator ''img'' [] []
     = (Inr \<lparr>fashion_analysis =
               \<lparr>garment_summary = ''first'',
                components = [\<lparr>name = ''cotton'', percentage = float_0_0, weight_grams = float_0_0\<rparr>],
                total_weight_grams = None\<rparr>,
             sustainability_estimates =
               \<lparr>water_liters = float_0_0, co2_kg = float_0_0, energy_kwh = float_0_0,
                methodology_notes = ''later'', research_context = []\<rparr>\<rparr>,
        [ModelInvoke (InjectedClient ''mock'')
           (AnalyzerVars ''img'' ''No additional context provided.''),
         SearchToolRun ''Lifecycle assessment water CO2 energy consumption for cotton'',
         ModelInvoke (InjectedClient ''mock'')
           (EstimatorVars
              (analysis_json
                 \<lparr>garment_summary = ''first'',
                  components = [\<lparr>name = ''cotton'', percentage = float_0_0, weight_grams = float_0_0\<rparr>],
                  total_weight_grams = None\<rparr>)
              (disabled_search ''Lifecycle assessment water CO2 energy consumption for cotton''))])"
  by (simp add: run_def analyze_def estimate_def web_search_run_def cycling_environment_def
      echo_parser_def mock_orchestrator_def mock_estimator_def SustainabilityWebSearchTool_init_def
      build_tool_def build_research_query_def fashion_analysis_of_parsed_def
      estimates_of_parsed_def dict_get_def dict_get_none_def Let_def
      analyzer_schema_keys_def estimator_schema_keys_def)

lemma cycling_run_off_cycle:
  "fst (run cycling_environment mock_orchestrator ''img'' [] [SearchToolRun []])
     = Inr \<lparr>fashion_analysis =
               \<lparr>garment_summary = ''later'',
                components = [\<lparr>name = ''cotton'', percentage = float_0_0, weight_grams = float_0_0\<rparr>],
                total_weight_grams = None\<rparr>,
             sustainability_estimates =
               \<lparr>water_liters = float_0_0, co2_kg = float_0_0, energy_kwh = float_0_0,
                methodology_notes = ''first'', research_context = []\<rparr>\<rparr>"
  by (simp add: run_def analyze_def estimate_def web_search_run_def cycling_environment_def
      echo_parser_def mock_orchestrator_def mock_estimator_def SustainabilityWebSearchTool_init_def
      build_tool_def build_research_query_def fashion_analysis_of_parsed_def
      estimates_of_parsed_def dict_get_def dict_get_none_def Let_def
      analyzer_schema_keys_def estimator_schema_keys_def)

text \<open>
  The outcome of a run is not fixed by its inputs alone: with the cycling model provider
  the same orchestrator on the same image serialises differently after a different
  record of calls.
\<close>

lemma run_outcome_follows_replies:
  "map_sum id (serialize stub_encoder) (fst (run cycling_environment mock_orchestrator ''img'' [] []))
     \<noteq> map_sum id (serialize stub_encoder)
         (fst (run cycling_environment mock_orchestrator ''img'' [] [SearchToolRun []]))"
  by (simp add: cycling_run_from_start cycling_run_off_cycle serialize_def to_dict_def
      estimates_dict_def component_dict_def float_or_none_def stub_encoder_def newline_indent_def)

lemma cycling_same_replies:
  "same_replies cycling_environment []
     (snd (run cycling_environment mock_orchestrator ''img'' [] []))"
proof -
  have len: "length (snd (run cycling_environment mock_orchestrator ''img'' [] [])) = 3"
    by (simp add: cycling_run_from_start)
  have "\<And>s c v. invoke cycling_environment
                     (snd (run cycling_environment mock_orchestrator ''img'' [] []) @ s) c v
                  = invoke cycling_environment ([] @ s) c v"
    using len by (simp add: cycling_environment_def)
  moreover have "\<And>t u k key q. tavily cycling_environment t k key q
                                  = tavily cycling_environment u k key q"
    by (simp add: cycling_environment_def)
  ultimately show ?thesis
    unfolding same_replies_def by metis
qed

text \<open>
  Claim C7: two runs of the orchestrator on the same inputs, started after two records of
  calls from which the providers give the same replies, make the same calls and end in
  the same outcome: the same error, or combined results whose serialisations by
  \<^verbatim>\<open>json.dumps\<close> are the same text. In particular a run and its repetition, which starts
  from the record the first run left, serialise identically when the mocked replies
  repeat.
\<close>

theorem run_deterministic_given_replies:
  assumes "same_replies E t1 t2"
  shows "map_sum id (serialize X) (fst (run E orch img p t1))
           = map_sum id (serialize X) (fst (run E orch img p t2))
         \<and> (\<exists>s. snd (run E orch img p t1) = t1 @ s \<and> snd (run E orch img p t2) = t2 @ s)"
proof -
  from run_same_replies [OF assms, of orch img p]
  obtain s where s: "run E orch img p t1 = (fst (run E orch img p t2), t1 @ s)"
      "snd (run E orch img p t2) = t2 @ s"
    by blast
  from s(1) have "fst (run E orch img p t1) = fst (run E orch img p t2)"
      and "snd (run E orch img p t1) = t1 @ s"
    by simp_all
  with s(2) show ?thesis by auto
qed

theorem run_deterministic_given_replies_witness:
  "same_replies cycling_environment []
     (snd (run cycling_environment mock_orchestrator ''img'' [] []))
   \<and> map_sum id (serialize stub_encoder)
       (fst (run cycling_environment mock_orchestrator ''img'' []
               (snd (run cycling_environment mock_orchestrator ''img'' [] []))))
     = Inr (json_dumps stub_encoder 0
         (PyDict
           [(''fashion_analysis'',
             PyDict [(''garment_summary'', PyStr ''first''),
                     (''total_weight_grams'', PyNone),
                     (''components'',
                      PyList [PyDict [(''name'', PyStr ''cotton''),
                                      (''percentage'', PyFloat float_0_0),
                                      (''weight_grams'', PyFloat float_0_0)]])]),
            (''sustainability_estimates'',
             PyDict [(''water_liters'', PyFloat float_0_0),
                     (''co2_kg'', PyFloat float_0_0),
                     (''energy_kwh'', PyFloat float_0_0),
                     (''methodology_notes'', PyStr ''later''),
                     (''research_context'', PyStr [])])]))"
proof -
  let ?T = "snd (run cycling_environment mock_orchestrator ''img'' [] [])"
  have h: "same_replies cycling_environment [] ?T"
    by (rule cycling_same_replies)
  have "map_sum id (serialize stub_encoder)
          (fst (run cycling_environment mock_orchestrator ''img'' [] []))
        = map_sum id (serialize stub_encoder)
          (fst (run cycling_environment mock_orchestrator ''img'' [] ?T))"
    using run_deterministic_given_replies
      [OF h, of stub_encoder mock_orchestrator "''img''" "[]"]
    by blast
  then show ?thesis
    using h
    by (simp add: cycling_run_from_start serialize_def to_dict_def estimates_dict_def
        component_dict_def float_or_none_def)
qed

section \<open>Serialisation\<close>

lemma components_from_list_map: "components_from_list (map component_dict cs) = Some cs"
  by (induction cs) (simp_all add: component_dict_def)

text \<open>
  Claim C8: reading a serialised combined result back gives the combined result itself:
  every numeric field and every string field is reproduced exactly.
\<close>

theorem to_dict_roundtrip: "from_dict (to_dict r) = Some r"
  by (simp add: to_dict_def estimates_dict_def float_or_none_def components_from_list_map
      split: option.split)

section \<open>The default policy of the parsing steps\<close>

lemma float_accepts_result: "float_accepts B v \<Longrightarrow> \<exists>f. py_float B v = Inr f"
  by (cases "py_float B v") (simp_all add: float_accepts_def)

lemma dict_get_missing: "map_of d key = None \<Longrightarrow> dict_get d key dflt = dflt"
  by (simp add: dict_get_def)

lemma component_of_item_wellformed:
  assumes "wellformed_item B (PyDict d)"
  shows "\<exists>c. component_of_item B (PyDict d) = Inr c
           \<and> (map_of d ''name'' = None \<longrightarrow> name c = [])
           \<and> (map_of d ''percentage'' = None \<longrightarrow> percentage c = float_0_0)
           \<and> (map_of d ''weight_grams'' = None \<longrightarrow> weight_grams c = float_0_0)"
proof -
  from assms obtain pc where pc: "py_float B (dict_get d ''percentage'' (PyFloat float_0_0)) = Inr pc"
    using float_accepts_result by fastforce
  from assms obtain w where w: "py_float B (dict_get d ''weight_grams'' (PyFloat float_0_0)) = Inr w"
    using float_accepts_result by fastforce
  have p0: "map_of d ''percentage'' = None \<longrightarrow> pc = float_0_0"
    using pc by (auto simp: dict_get_missing)
  have w0: "map_of d ''weight_grams'' = None \<longrightarrow> w = float_0_0"
    using w by (auto simp: dict_get_missing)
  have n0: "map_of d ''name'' = None \<longrightarrow> py_str B (dict_get d ''name'' (PyStr [])) = []"
    by (auto simp: dict_get_missing)
  show ?thesis
    using pc w p0 w0 n0 by (simp add: Let_def)
qed

lemma components_of_items_wellformed:
  assumes "list_all (wellformed_item B) items"
  shows "\<exists>cs. components_of_items B items = Inr cs
            \<and> length cs = length items
            \<and> (\<forall>i<length items. \<forall>d. items ! i = PyDict d \<longrightarrow>
                  (map_of d ''name'' = None \<longrightarrow> name (cs ! i) = [])
                \<and> (map_of d ''percentage'' = None \<longrightarrow> percentage (cs ! i) = float_0_0)
                \<and> (map_of d ''weight_grams'' = None \<longrightarrow> weight_grams (cs ! i) = float_0_0))"
  using assms
proof (induction items)
  case Nil
  then show ?case by simp
next
  case (Cons item items)
  from Cons.prems have wi: "wellformed_item B item" and wr: "list_all (wellformed_item B) items"
    by simp_all
  from wi obtain d where d: "item = PyDict d"
    by (cases item) simp_all
  from component_of_item_wellformed [of B d] wi d
  obtain c where c: "component_of_item B item = Inr c"
      "map_of d ''name'' = None \<longrightarrow> name c = []"
      "map_of d ''percentage'' = None \<longrightarrow> percentage c = float_0_0"
      "map_of d ''weight_grams'' = None \<longrightarrow> weight_grams c = float_0_0"
    by auto
  from Cons.IH [OF wr]
  obtain cs where cs: "components_of_items B items = Inr cs" "length cs = length items"
      "\<forall>i<length items. \<forall>d. items ! i = PyDict d \<longrightarrow>
                  (map_of d ''name'' = None \<longrightarrow> name (cs ! i) = [])
                \<and> (map_of d ''percentage'' = None \<longrightarrow> percentage (cs ! i) = float_0_0)
                \<and> (map_of d ''weight_grams'' = None \<longrightarrow> weight_grams (cs ! i) = float_0_0)"
    by auto
  have res: "components_of_items B (item # items) = Inr (c # cs)"
    using c(1) cs(1) by simp
  have "\<forall>i<length (item # items). \<forall>d'. (item # items) ! i = PyDict d' \<longrightarrow>
                  (map_of d' ''name'' = None \<longrightarrow> name ((c # cs) ! i) = [])
                \<and> (map_of d' ''percentage'' = None \<longrightarrow> percentage ((c # cs) ! i) = float_0_0)
                \<and> (map_of d' ''weight_grams'' = None \<longrightarrow> weight_grams ((c # cs) ! i) = float_0_0)"
  proof (intro allI impI)
    fix i d'
    assume i: "i < length (item # items)" and e: "(item # items) ! i = PyDict d'"
    show "(map_of d' ''name'' = None \<longrightarrow> name ((c # cs) ! i) = [])
                \<and> (map_of d' ''percentage'' = None \<longrightarrow> percentage ((c # cs) ! i) = float_0_0)
                \<and> (map_of d' ''weight_grams'' = None \<longrightarrow> weight_grams ((c # cs) ! i) = float_0_0)"
    proof (cases i)
      case 0
      then show ?thesis using e d c by simp
    next
      case (Suc j)
      then show ?thesis using i e cs(3) by simp
    qed
  qed
  with res cs(2) show ?case by simp
qed

lemma total_weight_wellformed:
  assumes "wellformed_analysis B parsed"
  shows "\<exists>tw. (if dict_get_none parsed ''total_weight_grams'' \<noteq> PyNone
               then map_sum id Some (py_float B (dict_get_none parsed ''total_weight_grams''))
               else Inr None) = Inr tw
             \<and> (map_of parsed ''total_weight_grams'' = None \<longrightarrow> tw = None)"
proof (cases "map_of parsed ''total_weight_grams''")
  case None
  then show ?thesis by (simp add: dict_get_none_def dict_get_def)
next
  case (Some v)
  show ?thesis
  proof (cases "v = PyNone")
    case True
    then show ?thesis using Some by (simp add: dict_get_none_def dict_get_def)
  next
    case False
    with assms Some have "float_accepts B v"
      by (cases v) (simp_all add: wellformed_analysis_def)
    then obtain f where "py_float B v = Inr f"
      using float_accepts_result by blast
    then show ?thesis using Some False by (simp add: dict_get_none_def dict_get_def)
  qed
qed

lemma fashion_analysis_wellformed:
  assumes "wellformed_analysis B parsed"
  shows "\<exists>a. fashion_analysis_of_parsed B parsed = Inr a
           \<and> (map_of parsed ''total_weight_grams'' = None \<longrightarrow> total_weight_grams a = None)
           \<and> (map_of parsed ''garment_summary'' = None \<longrightarrow> garment_summary a = [])
           \<and> (map_of parsed ''components'' = None \<longrightarrow> components a = [])
           \<and> (\<forall>items. map_of parsed ''components'' = Some (PyList items) \<longrightarrow>
                length (components a) = length items
                \<and> (\<forall>i<length items. \<forall>d. items ! i = PyDict d \<longrightarrow>
                      (map_of d ''name'' = None \<longrightarrow> name (components a ! i) = [])
                    \<and> (map_of d ''percentage'' = None \<longrightarrow> percentage (components a ! i) = float_0_0)
                    \<and> (map_of d ''weight_grams'' = None \<longrightarrow> weight_grams (components a ! i) = float_0_0)))"
proof -
  from total_weight_wellformed [OF assms]
  obtain tw where tw: "(if dict_get_none parsed ''total_weight_grams'' \<noteq> PyNone
               then map_sum id Some (py_float B (dict_get_none parsed ''total_weight_grams''))
               else Inr None) = Inr tw"
      "map_of parsed ''total_weight_grams'' = None \<longrightarrow> tw = None"
    by (elim exE conjE) (rule that)
  have gs: "map_of parsed ''garment_summary'' = None \<longrightarrow>
              py_str B (dict_get parsed ''garment_summary'' (PyStr [])) = []"
    by (auto simp: dict_get_missing)
  show ?thesis
  proof (cases "map_of parsed ''components''")
    case None
    then have "components_of_raw B (dict_get parsed ''components'' (PyList [])) = Inr []"
      by (simp add: dict_get_def)
    then show ?thesis using None tw gs
      by (simp add: fashion_analysis_of_parsed_def Let_def)
  next
    case (Some v)
    with assms obtain items where v: "v = PyList items" and wf: "list_all (wellformed_item B) items"
      by (cases v) (simp_all add: wellformed_analysis_def)
    from components_of_items_wellformed [OF wf]
    obtain cs where cs: "components_of_items B items = Inr cs" "length cs = length items"
      "\<forall>i<length items. \<forall>d. items ! i = PyDict d \<longrightarrow>
                  (map_of d ''name'' = None \<longrightarrow> name (cs ! i) = [])
                \<and> (map_of d ''percentage'' = None \<longrightarrow> percentage (cs ! i) = float_0_0)
                \<and> (map_of d ''weight_grams'' = None \<longrightarrow> weight_grams (cs ! i) = float_0_0)"
      by blast
    have "components_of_raw B (dict_get parsed ''components'' (PyList [])) = Inr cs"
      using Some v cs(1) by (simp add: dict_get_def)
    then have "fashion_analysis_of_parsed B parsed
                 = Inr \<lparr>garment_summary = py_str B (dict_get parsed ''garment_summary'' (PyStr [])),
                        components = cs, total_weight_grams = tw\<rparr>"
      using tw(1) by (simp add: fashion_analysis_of_parsed_def Let_def)
    then show ?thesis using Some v tw(2) gs cs(2,3) by simp
  qed
qed

lemma estimates_wellformed:
  assumes "wellformed_estimates B parsed"
  shows "\<exists>s. estimates_of_parsed B parsed = Inr s
           \<and> (map_of parsed ''water_liters'' = None \<longrightarrow> water_liters s = float_0_0)
           \<and> (map_of parsed ''co2_kg'' = None \<longrightarrow> co2_kg s = float_0_0)
           \<and> (map_of parsed ''energy_kwh'' = None \<longrightarrow> energy_kwh s = float_0_0)
           \<and> (map_of parsed ''methodology_notes'' = None \<longrightarrow> methodology_notes s = [])
           \<and> (map_of parsed ''research_context'' = None \<longrightarrow> research_context s = [])"
proof -
  from assms obtain w where w: "py_float B (dict_get parsed ''water_liters'' (PyFloat float_0_0)) = Inr w"
    using float_accepts_result by (fastforce simp: wellformed_estimates_def)
  from assms obtain c where c: "py_float B (dict_get parsed ''co2_kg'' (PyFloat float_0_0)) = Inr c"
    using float_accepts_result by (fastforce simp: wellformed_estimates_def)
  from assms obtain e where e: "py_float B (dict_get parsed ''energy_kwh'' (PyFloat float_0_0)) = Inr e"
    using float_accepts_result by (fastforce simp: wellformed_estimates_def)
  have w0: "map_of parsed ''water_liters'' = None \<longrightarrow> w = float_0_0"
    using w by (auto simp: dict_get_missing)
  have c0: "map_of parsed ''co2_kg'' = None \<longrightarrow> c = float_0_0"
    using c by (auto simp: dict_get_missing)
  have e0: "map_of parsed ''energy_kwh'' = None \<longrightarrow> e = float_0_0"
    using e by (auto simp: dict_get_missing)
  have m0: "map_of parsed ''methodology_notes'' = None \<longrightarrow>
              py_str B (dict_get parsed ''methodology_notes'' (PyStr [])) = []"
    by (auto simp: dict_get_missing)
  have r0: "map_of parsed ''research_context'' = None \<longrightarrow>
              py_str B (dict_get parsed ''research_context'' (PyStr [])) = []"
    by (auto simp: dict_get_missing)
  show ?thesis
    using w c e w0 c0 e0 m0 r0 by (simp add: estimates_of_parsed_def)
qed

text \<open>
  Claim C3: for well-formed parsed responses both parsing steps succeed, and every
  missing field takes its documented default: a missing total weight is unset (\<^verbatim>\<open>None\<close>),
  a missing percentage, weight, water, CO2 or energy figure is the float 0.0, and a
  missing summary, component name, methodology note or research context is the empty
  string.
\<close>

theorem parsing_applies_defaults:
  assumes "wellformed_analysis B parsed" and "wellformed_estimates B reply"
  shows "\<exists>a s. fashion_analysis_of_parsed B parsed = Inr a
           \<and> estimates_of_parsed B reply = Inr s
           \<and> (map_of parsed ''total_weight_grams'' = None \<longrightarrow> total_weight_grams a = None)
           \<and> (map_of parsed ''garment_summary'' = None \<longrightarrow> garment_summary a = [])
           \<and> (map_of parsed ''components'' = None \<longrightarrow> components a = [])
           \<and> (\<forall>items. map_of parsed ''components'' = Some (PyList items) \<longrightarrow>
                length (components a) = length items
                \<and> (\<forall>i<length items. \<forall>d. items ! i = PyDict d \<longrightarrow>
                      (map_of d ''name'' = None \<longrightarrow> name (components a ! i) = [])
                    \<and> (map_of d ''percentage'' = None \<longrightarrow> percentage (components a ! i) = float_0_0)
                    \<and> (map_of d ''weight_grams'' = None \<longrightarrow> weight_grams (components a ! i) = float_0_0)))
           \<and> (map_of reply ''water_liters'' = None \<longrightarrow> water_liters s = float_0_0)
           \<and> (map_of reply ''co2_kg'' = None \<longrightarrow> co2_kg s = float_0_0)
           \<and> (map_of reply ''energy_kwh'' = None \<longrightarrow> energy_kwh s = float_0_0)
           \<and> (map_of reply ''methodology_notes'' = None \<longrightarrow> methodology_notes s = [])
           \<and> (map_of reply ''research_context'' = None \<longrightarrow> research_context s = [])"
proof -
  from fashion_analysis_wellformed [OF assms(1)] obtain a where
    a: "fashion_analysis_of_parsed B parsed = Inr a
           \<and> (map_of parsed ''total_weight_grams'' = None \<longrightarrow> total_weight_grams a = None)
           \<and> (map_of parsed ''garment_summary'' = None \<longrightarrow> garment_summary a = [])
           \<and> (map_of parsed ''components'' = None \<longrightarrow> components a = [])
           \<and> (\<forall>items. map_of parsed ''components'' = Some (PyList items) \<longrightarrow>
                length (components a) = length items
                \<and> (\<forall>i<length items. \<forall>d. items ! i = PyDict d \<longrightarrow>
                      (map_of d ''name'' = None \<longrightarrow> name (components a ! i) = [])
                    \<and> (map_of d ''percentage'' = None \<longrightarrow> percentage (components a ! i) = float_0_0)
                    \<and> (map_of d ''weight_grams'' = None \<longrightarrow> weight_grams (components a ! i) = float_0_0)))"
    by (elim exE) (rule that)
  from estimates_wellformed [OF assms(2)] obtain s where
    s: "estimates_of_parsed B reply = Inr s
           \<and> (map_of reply ''water_liters'' = None \<longrightarrow> water_liters s = float_0_0)
           \<and> (map_of reply ''co2_kg'' = None \<longrightarrow> co2_kg s = float_0_0)
           \<and> (map_of reply ''energy_kwh'' = None \<longrightarrow> energy_kwh s = float_0_0)
           \<and> (map_of reply ''methodology_notes'' = None \<longrightarrow> methodology_notes s = [])
           \<and> (map_of reply ''research_context'' = None \<longrightarrow> research_context s = [])"
    by (elim exE) (rule that)
  show ?thesis
    apply (rule exI [of _ a])
    apply (rule exI [of _ s])
    using a s apply (intro conjI)
              apply (elim conjE, assumption)+
    done
qed

theorem parsing_applies_defaults_witness:
  "wellformed_analysis stub_builtins [(''components'', PyList [PyDict []])]
   \<and> wellformed_estimates stub_builtins []
   \<and> (\<exists>a s. fashion_analysis_of_parsed stub_builtins [(''components'', PyList [PyDict []])] = Inr a
         \<and> estimates_of_parsed stub_builtins [] = Inr s
         \<and> total_weight_grams a = None
         \<and> garment_summary a = []
         \<and> length (components a) = 1
         \<and> name (components a ! 0) = []
         \<and> percentage (components a ! 0) = float_0_0
         \<and> weight_grams (components a ! 0) = float_0_0
         \<and> water_liters s = float_0_0
         \<and> co2_kg s = float_0_0
         \<and> energy_kwh s = float_0_0
         \<and> methodology_notes s = []
         \<and> research_context s = [])"
proof -
  have wa: "wellformed_analysis stub_builtins [(''components'', PyList [PyDict []])]"
    by (simp add: wellformed_analysis_def float_accepts_def dict_get_def)
  have we: "wellformed_estimates stub_builtins []"
    by (simp add: wellformed_estimates_def float_accepts_def dict_get_def)
  from parsing_applies_defaults [OF wa we] obtain a s where
    r: "fashion_analysis_of_parsed stub_builtins [(''components'', PyList [PyDict []])] = Inr a"
       "estimates_of_parsed stub_builtins [] = Inr s"
       "total_weight_grams a = None" "garment_summary a = []"
       "length (components a) = length [PyDict []]
          \<and> (\<forall>i<length [PyDict []]. \<forall>d. [PyDict []] ! i = PyDict d \<longrightarrow>
                      (map_of d ''name'' = None \<longrightarrow> name (components a ! i) = [])
                    \<and> (map_of d ''percentage'' = None \<longrightarrow> percentage (components a ! i) = float_0_0)
                    \<and> (map_of d ''weight_grams'' = None \<longrightarrow> weight_grams (components a ! i) = float_0_0))"
       "water_liters s = float_0_0" "co2_kg s = float_0_0" "energy_kwh s = float_0_0"
       "methodology_notes s = []" "research_context s = []"
    by auto
  from r(5) have "length (components a) = 1" "name (components a ! 0) = []"
      "percentage (components a ! 0) = float_0_0" "weight_grams (components a ! 0) = float_0_0"
    by simp_all
  with wa we r show ?thesis by blast
qed

end
